theory Spec2Isabelle
  imports Complex_Main "HOL-Library.Finite_Map" "HOL-Library.AList" "HOL-Library.Sublist"
    "HOL-Library.Char_ord" "HOL-Library.List_Lexorder"
begin

section \<open>Values of a parsed configuration document\<close>

text \<open>
  \<^verbatim>\<open>scripts/config_manager.py\<close> keeps the configuration as the object that
  \<^verbatim>\<open>yaml.safe_load\<close> returns: nested Python dictionaries, lists and scalars, none of
  them checked against a schema. The embedding keeps that dynamic shape: one datatype of values,
  and every Python operation of the source that can raise on a value of the wrong kind returns
  a sum, \<open>Inl\<close> carrying the exception.

  A float is a rational number, an infinity or NaN (every finite IEEE double is a rational; the
  source only compares thresholds with the integers 0 and 100, so no rounding is involved).
  Mappings are finite maps keyed by strings: the source looks keys up by string only, and a
  dictionary is compared and written back to disk without regard to the order of its keys.
  The other values that \<^verbatim>\<open>yaml.safe_load\<close> can build (dates, binary data, sets,
  keys that are not strings) are not part of the model.
\<close>

datatype pyfloat = FNum rat | PosInf | NegInf | NaN

datatype yaml =
    YNull
  | YBool bool
  | YInt int
  | YFloat pyfloat
  | YStr string
  | YSeq "yaml list"
  | YMap "(string, yaml) fmap"

text \<open>
  The exceptions that leave the functions of the module. \<open>ValueError\<close> and \<open>KeyError\<close> carry the
  argument the source builds with its f-strings; \<open>TypeError\<close> and \<open>AttributeError\<close> are raised by
  the Python runtime when a value has the wrong kind.
\<close>

datatype py_error =
    FileNotFoundError
  | ValueError string
  | KeyError string
  | TypeError
  | AttributeError

subsection \<open>The Python operations the source applies to these values\<close>

text \<open>\<^verbatim>\<open>k in obj\<close> for a string \<open>k\<close>: key membership in a dictionary, element membership
  in a list, substring test in a string; any other value is not iterable.\<close>

definition py_contains :: "string \<Rightarrow> yaml \<Rightarrow> py_error + bool" where
  "py_contains k obj =
     (case obj of
        YMap m \<Rightarrow> Inr (fmlookup m k \<noteq> None)
      | YSeq xs \<Rightarrow> Inr (YStr k \<in> set xs)
      | YStr s \<Rightarrow> Inr (sublist k s)
      | _ \<Rightarrow> Inl TypeError)"

text \<open>\<^verbatim>\<open>obj.get(k, d)\<close>: only dictionaries have the method.\<close>

definition py_get :: "yaml \<Rightarrow> string \<Rightarrow> yaml \<Rightarrow> py_error + yaml" where
  "py_get obj k d =
     (case obj of
        YMap m \<Rightarrow> Inr (case fmlookup m k of None \<Rightarrow> d | Some v \<Rightarrow> v)
      | _ \<Rightarrow> Inl AttributeError)"

text \<open>\<^verbatim>\<open>obj[k]\<close> for a string \<open>k\<close>: a dictionary raises KeyError on a missing key;
  lists and strings take integer indices only, the other values are not subscriptable.\<close>

definition py_getitem :: "yaml \<Rightarrow> string \<Rightarrow> py_error + yaml" where
  "py_getitem obj k =
     (case obj of
        YMap m \<Rightarrow> (case fmlookup m k of None \<Rightarrow> Inl (KeyError k) | Some v \<Rightarrow> Inr v)
      | _ \<Rightarrow> Inl TypeError)"

text \<open>\<^verbatim>\<open>obj[k] = v\<close> for a string \<open>k\<close>; the updated object is returned.\<close>

definition py_setitem :: "yaml \<Rightarrow> string \<Rightarrow> yaml \<Rightarrow> py_error + yaml" where
  "py_setitem obj k v =
     (case obj of
        YMap m \<Rightarrow> Inr (YMap (fmupd k v m))
      | _ \<Rightarrow> Inl TypeError)"

section \<open>Libraries outside the repository\<close>

text \<open>
  The module calls PyYAML and the standard \<^verbatim>\<open>logging\<close> module. Neither is part of the
  repository, so both are parameters of the model:
  \<^item> \<open>yaml_safe_load\<close> parses the text of a file (\<open>Inl\<close> is the text of a
    \<^verbatim>\<open>yaml.YAMLError\<close>), \<open>yaml_dump\<close> serialises a document;
  \<^item> \<open>logging_getattr\<close> is \<^verbatim>\<open>getattr(logging, name)\<close>, \<open>None\<close> when the module has no
    such attribute; \<open>logging_basicConfig\<close> is the exception, if any, that
    \<^verbatim>\<open>logging.basicConfig(level=v, format=...)\<close> raises for that attribute value.
\<close>

record ('f, 'lv) libs =
  yaml_safe_load :: "'f \<Rightarrow> string + yaml"
  yaml_dump :: "yaml \<Rightarrow> 'f"
  logging_getattr :: "string \<Rightarrow> 'lv option"
  logging_basicConfig :: "'lv \<Rightarrow> py_error option"

section \<open>ConfigManager: construction\<close>

record ConfigManager =
  config_path :: string
  config :: yaml

definition required_sections :: "string list" where
  "required_sections = [''database'', ''data_sources'', ''data_quality'', ''pipeline'']"

text \<open>The loop of \<^verbatim>\<open>_validate_config\<close>: the first section that is not in the
  document raises.\<close>

fun check_sections :: "string list \<Rightarrow> yaml \<Rightarrow> py_error + unit" where
  "check_sections [] cfg = Inr ()"
| "check_sections (section # rest) cfg =
     (case py_contains section cfg of
        Inl e \<Rightarrow> Inl e
      | Inr present \<Rightarrow>
          if \<not> present
          then Inl (ValueError (''Missing required configuration section: '' @ section))
          else check_sections rest cfg)"

definition validate_config :: "yaml \<Rightarrow> py_error + unit" where
  "validate_config cfg = check_sections required_sections cfg"

text \<open>\<^verbatim>\<open>_load_config\<close>: the files are a map from paths to texts. Only a missing file
  and a YAML error are caught and raised again; what \<^verbatim>\<open>_validate_config\<close> raises passes
  through.\<close>

definition load_config :: "('f, 'lv) libs \<Rightarrow> (string \<Rightarrow> 'f option) \<Rightarrow> string \<Rightarrow> py_error + yaml" where
  "load_config L fs path =
     (case fs path of
        None \<Rightarrow> Inl FileNotFoundError
      | Some txt \<Rightarrow>
          (case yaml_safe_load L txt of
             Inl e \<Rightarrow> Inl (ValueError (''Invalid YAML syntax in config file: '' @ e))
           | Inr cfg \<Rightarrow>
               (case validate_config cfg of
                  Inl e \<Rightarrow> Inl e
                | Inr u \<Rightarrow> Inr cfg)))"

text \<open>\<^verbatim>\<open>_setup_logging\<close>: three chained \<^verbatim>\<open>.get\<close> calls, then
  \<^verbatim>\<open>getattr(logging, log_level)\<close>, which needs a string and raises AttributeError for a
  name the module does not have, then \<^verbatim>\<open>logging.basicConfig\<close>.\<close>

definition setup_logging :: "('f, 'lv) libs \<Rightarrow> yaml \<Rightarrow> py_error + unit" where
  "setup_logging L cfg =
     (case py_get cfg ''pipeline'' (YMap fmempty) of
        Inl e \<Rightarrow> Inl e
      | Inr pipeline \<Rightarrow>
     (case py_get pipeline ''logging'' (YMap fmempty) of
        Inl e \<Rightarrow> Inl e
      | Inr logging \<Rightarrow>
     (case py_get logging ''level'' (YStr ''INFO'') of
        Inl e \<Rightarrow> Inl e
      | Inr log_level \<Rightarrow>
     (case log_level of
        YStr nm \<Rightarrow>
          (case logging_getattr L nm of
             None \<Rightarrow> Inl AttributeError
           | Some lv \<Rightarrow>
               (case logging_basicConfig L lv of
                  Some e \<Rightarrow> Inl e
                | None \<Rightarrow> Inr ()))
      | _ \<Rightarrow> Inl TypeError))))"

text \<open>\<^verbatim>\<open>ConfigManager.__init__\<close>.\<close>

definition ConfigManager_init ::
  "('f, 'lv) libs \<Rightarrow> (string \<Rightarrow> 'f option) \<Rightarrow> string \<Rightarrow> py_error + ConfigManager" where
  "ConfigManager_init L fs path =
     (case load_config L fs path of
        Inl e \<Rightarrow> Inl e
      | Inr cfg \<Rightarrow>
          (case setup_logging L cfg of
             Inl e \<Rightarrow> Inl e
           | Inr u \<Rightarrow> Inr \<lparr>config_path = path, config = cfg\<rparr>))"

section \<open>ConfigManager: accessors\<close>

record DatabaseConfig =
  name :: yaml
  schemas :: yaml


text \<open>The fields of the dataclass \<^verbatim>\<open>PipelineStage\<close>; each defaults to
  \<^verbatim>\<open>None\<close>, which is \<open>YNull\<close>.\<close>

record PipelineStage =
  batch_size :: yaml
  parallel_workers :: yaml
  error_handling :: yaml
  warehouse_size :: yaml
  timeout_minutes :: yaml
  auto_suspend_minutes :: yaml
  export_formats :: yaml
  compression :: yaml

text \<open>\<^verbatim>\<open>get_database_config\<close>: three subscripts, each of which can raise.\<close>

definition get_database_config :: "ConfigManager \<Rightarrow> py_error + DatabaseConfig" where
  "get_database_config self =
     (case py_getitem (config self) ''database'' of
        Inl e \<Rightarrow> Inl e
      | Inr db_config \<Rightarrow>
     (case py_getitem db_config ''name'' of
        Inl e \<Rightarrow> Inl e
      | Inr n \<Rightarrow>
     (case py_getitem db_config ''schemas'' of
        Inl e \<Rightarrow> Inl e
      | Inr s \<Rightarrow> Inr \<lparr>name = n, schemas = s\<rparr>)))"

definition get_data_source_config :: "ConfigManager \<Rightarrow> string \<Rightarrow> py_error + yaml" where
  "get_data_source_config self source_name =
     (case py_get (config self) ''data_sources'' (YMap fmempty) of
        Inl e \<Rightarrow> Inl e
      | Inr data_sources \<Rightarrow>
     (case py_contains source_name data_sources of
        Inl e \<Rightarrow> Inl e
      | Inr present \<Rightarrow>
          if \<not> present
          then Inl (KeyError (''Data source '' @ [CHR 0x27] @ source_name @ [CHR 0x27]
                               @ '' not found in configuration''))
          else py_getitem data_sources source_name))"





definition stage_fields :: "string list" where
  "stage_fields = [''batch_size'', ''parallel_workers'', ''error_handling'', ''warehouse_size'',
     ''timeout_minutes'', ''auto_suspend_minutes'', ''export_formats'', ''compression'']"

definition kwarg :: "(string, yaml) fmap \<Rightarrow> string \<Rightarrow> yaml" where
  "kwarg m k = (case fmlookup m k of None \<Rightarrow> YNull | Some v \<Rightarrow> v)"

text \<open>\<^verbatim>\<open>PipelineStage(**stage_config)\<close>: the argument of \<^verbatim>\<open>**\<close> must be a
  mapping, and the constructor a dataclass generates takes no keyword but its eight fields;
  both failures are TypeError. The values are not checked.\<close>

definition PipelineStage_init :: "yaml \<Rightarrow> py_error + PipelineStage" where
  "PipelineStage_init stage_config =
     (case stage_config of
        YMap m \<Rightarrow>
          if fmdom m |\<subseteq>| fset_of_list stage_fields
          then Inr \<lparr>batch_size = kwarg m ''batch_size'',
                    parallel_workers = kwarg m ''parallel_workers'',
                    error_handling = kwarg m ''error_handling'',
                    warehouse_size = kwarg m ''warehouse_size'',
                    timeout_minutes = kwarg m ''timeout_minutes'',
                    auto_suspend_minutes = kwarg m ''auto_suspend_minutes'',
                    export_formats = kwarg m ''export_formats'',
                    compression = kwarg m ''compression''\<rparr>
          else Inl TypeError
      | _ \<Rightarrow> Inl TypeError)"

definition get_pipeline_stage_config :: "ConfigManager \<Rightarrow> string \<Rightarrow> py_error + PipelineStage" where
  "get_pipeline_stage_config self stage_name =
     (case py_get (config self) ''pipeline'' (YMap fmempty) of
        Inl e \<Rightarrow> Inl e
      | Inr pipeline_config \<Rightarrow>
     (case py_get pipeline_config ''stages'' (YMap fmempty) of
        Inl e \<Rightarrow> Inl e
      | Inr stages_config \<Rightarrow>
     (case py_contains stage_name stages_config of
        Inl e \<Rightarrow> Inl e
      | Inr present \<Rightarrow>
          if \<not> present
          then Inl (KeyError (''Pipeline stage '' @ [CHR 0x27] @ stage_name @ [CHR 0x27]
                               @ '' not found in configuration''))
          else
            (case py_getitem stages_config stage_name of
               Inl e \<Rightarrow> Inl e
             | Inr stage_config \<Rightarrow> PipelineStage_init stage_config))))"

text \<open>\<^verbatim>\<open>get_streamlit_config\<close> and \<^verbatim>\<open>get_monitoring_config\<close> pass the
  raw section through, an empty dictionary when it is absent.\<close>

definition get_streamlit_config :: "ConfigManager \<Rightarrow> py_error + yaml" where
  "get_streamlit_config self = py_get (config self) ''streamlit'' (YMap fmempty)"

definition get_monitoring_config :: "ConfigManager \<Rightarrow> py_error + yaml" where
  "get_monitoring_config self = py_get (config self) ''monitoring'' (YMap fmempty)"

section \<open>Connection parameters from the environment\<close>

text \<open>\<^verbatim>\<open>str.lower\<close> on ASCII letters and \<^verbatim>\<open>str.replace\<close> (leftmost
  non-overlapping occurrences; an empty pattern matches before every character and at the
  end). The source applies them to the five constant names below only.\<close>

definition lower_char :: "char \<Rightarrow> char" where
  "lower_char c =
     (let n = (of_char c :: nat) in if 65 \<le> n \<and> n \<le> 90 then char_of (n + 32) else c)"

definition str_lower :: "string \<Rightarrow> string" where
  "str_lower s = map lower_char s"

function str_replace :: "string \<Rightarrow> string \<Rightarrow> string \<Rightarrow> string" where
  "str_replace old new [] = (if old = [] then new else [])"
| "str_replace old new (c # cs) =
     (if old = [] then new @ c # str_replace old new cs
      else if prefix old (c # cs)
           then new @ str_replace old new (drop (length old) (c # cs))
           else c # str_replace old new cs)"
  by pat_completeness auto
termination
  by (relation "measure (\<lambda>(old, new, s). length s)") (auto simp: neq_Nil_conv)

definition required_params :: "string list" where
  "required_params = [''SNOWFLAKE_ACCOUNT'', ''SNOWFLAKE_USER'', ''SNOWFLAKE_PASSWORD'',
     ''SNOWFLAKE_WAREHOUSE'', ''SNOWFLAKE_ROLE'']"

definition param_key :: "string \<Rightarrow> string" where
  "param_key param = str_replace ''snowflake_'' [] (str_lower param)"

text \<open>The loop over \<^verbatim>\<open>required_params\<close>. The environment maps names to strings;
  \<^verbatim>\<open>if value:\<close> holds for a string that is not empty, and neither for
  \<^verbatim>\<open>None\<close> nor for the empty string. The accumulator is the pair of
  \<^verbatim>\<open>connection_params\<close> and \<^verbatim>\<open>missing_params\<close>.\<close>

fun collect_params ::
  "(string \<Rightarrow> string option) \<Rightarrow> string list \<Rightarrow> (string \<times> yaml) list \<times> string list
     \<Rightarrow> (string \<times> yaml) list \<times> string list" where
  "collect_params env [] acc = acc"
| "collect_params env (param # rest) (connection_params, missing_params) =
     (case env param of
        Some v \<Rightarrow>
          if v \<noteq> []
          then collect_params env rest
                 (AList.update (param_key param) (YStr v) connection_params, missing_params)
          else collect_params env rest (connection_params, missing_params @ [param])
      | None \<Rightarrow> collect_params env rest (connection_params, missing_params @ [param]))"

text \<open>How Python prints a list of strings inside an f-string: the \<^verbatim>\<open>repr\<close> of each
  element, separated by a comma and a space, in brackets. The \<^verbatim>\<open>repr\<close> of a string
  of letters and underscores is the string in single quotes.\<close>

definition py_repr_str :: "string \<Rightarrow> string" where
  "py_repr_str s = [CHR 0x27] @ s @ [CHR 0x27]"

fun py_join :: "string \<Rightarrow> string list \<Rightarrow> string" where
  "py_join sep [] = []"
| "py_join sep [x] = x"
| "py_join sep (x # y # ys) = x @ sep @ py_join sep (y # ys)"

definition py_str_list :: "string list \<Rightarrow> string" where
  "py_str_list xs = ''['' @ py_join '', '' (map py_repr_str xs) @ '']''"

definition get_snowflake_connection_params ::
  "(string \<Rightarrow> string option) \<Rightarrow> ConfigManager \<Rightarrow> py_error + (string \<times> yaml) list" where
  "get_snowflake_connection_params env self =
     (case collect_params env required_params ([], []) of
        (connection_params, missing_params) \<Rightarrow>
          if missing_params \<noteq> []
          then Inl (ValueError (''Missing required environment variables: ''
                                 @ py_str_list missing_params))
          else
            (case get_database_config self of
               Inl e \<Rightarrow> Inl e
             | Inr db_config \<Rightarrow>
                 Inr (AList.update ''database'' (name db_config) connection_params)))"

section \<open>Mutation and persistence\<close>

text \<open>\<^verbatim>\<open>_save_config\<close> overwrites the file at the path of the store with the dump
  of the whole document. Opening the file for writing is taken to succeed.\<close>

definition save_config ::
  "('f, 'lv) libs \<Rightarrow> (string \<Rightarrow> 'f option) \<Rightarrow> ConfigManager \<Rightarrow> (string \<Rightarrow> 'f option)" where
  "save_config L fs self = fs(config_path self \<mapsto> yaml_dump L (config self))"

text \<open>
  A place in a document: the keys and list indices that lead to it from the root.
  \<open>put_at\<close> stores a value at a place, and leaves the document as it is when the place does
  not exist.
\<close>

datatype step = Key string | Index nat

fun put_at :: "step list \<Rightarrow> yaml \<Rightarrow> yaml \<Rightarrow> yaml" where
  "put_at [] new doc = new"
| "put_at (Key k # rest) new doc =
     (case doc of
        YMap d \<Rightarrow>
          (case fmlookup d k of
             Some child \<Rightarrow> YMap (fmupd k (put_at rest new child) d)
           | None \<Rightarrow> doc)
      | _ \<Rightarrow> doc)"
| "put_at (Index i # rest) new doc =
     (case doc of
        YSeq xs \<Rightarrow> if i < length xs then YSeq (xs[i := put_at rest new (xs ! i)]) else doc
      | _ \<Rightarrow> doc)"

text \<open>
  \<^verbatim>\<open>update_config\<close>. The assignment \<^verbatim>\<open>self.config[section][key] = value\<close>
  mutates the dictionary object of the section in place. A document can hold one dictionary
  object at several places (a YAML anchor with its aliases), and the values of the model do
  not record which dictionaries are one object. The argument \<open>shared\<close> carries that part of
  the state: the other places at which the document holds the dictionary object of the
  section. After the assignment the document has the updated dictionary at the section and at
  every place of \<open>shared\<close>. A section that the call creates is a fresh object, held nowhere else.
  When a statement raises, nothing has been changed yet: the section is created only when it
  was absent, and storing into the fresh empty dictionary cannot fail. The call of the logger
  that follows the save returns nothing and does not raise.
\<close>

definition update_config ::
  "('f, 'lv) libs \<Rightarrow> (string \<Rightarrow> 'f option) \<Rightarrow> ConfigManager \<Rightarrow> step list list
     \<Rightarrow> string \<Rightarrow> string \<Rightarrow> yaml \<Rightarrow> py_error + ConfigManager \<times> (string \<Rightarrow> 'f option)" where
  "update_config L fs self shared section key v =
     (case py_contains section (config self) of
        Inl e \<Rightarrow> Inl e
      | Inr present \<Rightarrow>
     (case (if \<not> present then py_setitem (config self) section (YMap fmempty)
            else Inr (config self)) of
        Inl e \<Rightarrow> Inl e
      | Inr cfg1 \<Rightarrow>
     (case py_getitem cfg1 section of
        Inl e \<Rightarrow> Inl e
      | Inr sec \<Rightarrow>
     (case py_setitem sec key v of
        Inl e \<Rightarrow> Inl e
      | Inr sec' \<Rightarrow>
     (case py_setitem cfg1 section sec' of
        Inl e \<Rightarrow> Inl e
      | Inr cfg2 \<Rightarrow>
          (let cfg3 = (if present then fold (\<lambda>place. put_at place sec') shared cfg2 else cfg2);
               self' = self\<lparr>config := cfg3\<rparr>
           in Inr (self', save_config L fs self')))))))"

section \<open>Validation of the data quality thresholds\<close>












section \<open>Concrete documents and libraries\<close>

text \<open>The document that \<^verbatim>\<open>create_default_config\<close> writes, section by section.\<close>

definition default_database :: "(string, yaml) fmap" where
  "default_database = fmap_of_list [
     (''name'', YStr ''TASTY_BYTES''),
     (''schemas'', YMap (fmap_of_list [
        (''raw'', YStr ''RAW_DATA''),
        (''harmonized'', YStr ''HARMONIZED''),
        (''analytics'', YStr ''ANALYTICS'')]))]"

definition default_data_sources :: "(string, yaml) fmap" where
  "default_data_sources = fmap_of_list [
     (''weather_data'', YMap (fmap_of_list [
        (''table'', YStr ''weather_hamburg''),
        (''schema'', YStr ''harmonized''),
        (''refresh_frequency'', YStr ''daily''),
        (''retention_days'', YInt 365)]))]"

definition default_data_quality :: "(string, yaml) fmap" where
  "default_data_quality = fmap_of_list [
     (''validation_rules'', YSeq [
        YMap (fmap_of_list [
          (''name'', YStr ''null_check''),
          (''type'', YStr ''completeness''),
          (''threshold'', YInt 95),
          (''critical'', YBool True)])])]"

definition default_pipeline :: "(string, yaml) fmap" where
  "default_pipeline = fmap_of_list [
     (''stages'', YMap (fmap_of_list [
        (''ingestion'', YMap (fmap_of_list [
           (''batch_size'', YInt 10000),
           (''parallel_workers'', YInt 4)]))])),
     (''logging'', YMap (fmap_of_list [
        (''level'', YStr ''INFO'')]))]"

definition default_sections :: "(string, yaml) fmap" where
  "default_sections = fmap_of_list [
     (''database'', YMap default_database),
     (''data_sources'', YMap default_data_sources),
     (''data_quality'', YMap default_data_quality),
     (''pipeline'', YMap default_pipeline)]"

definition default_config :: yaml where
  "default_config = YMap default_sections"

definition create_default_config ::
  "('f, 'lv) libs \<Rightarrow> (string \<Rightarrow> 'f option) \<Rightarrow> string \<Rightarrow> (string \<Rightarrow> 'f option)" where
  "create_default_config L fs output_path = fs(output_path \<mapsto> yaml_dump L default_config)"

text \<open>
  An instance of the libraries on which the model can be evaluated: the text of a file is
  the document it denotes, so that parsing never fails and a dump is read back as it was
  written; the attributes of the logging module are its level constants, and
  \<^verbatim>\<open>basicConfig\<close> accepts each of them.
\<close>

definition logging_levels :: "(string \<times> int) list" where
  "logging_levels = [(''CRITICAL'', 50), (''FATAL'', 50), (''ERROR'', 40), (''WARNING'', 30),
     (''WARN'', 30), (''INFO'', 20), (''DEBUG'', 10), (''NOTSET'', 0)]"

definition plain_libs :: "(yaml, int) libs" where
  "plain_libs = \<lparr>yaml_safe_load = Inr, yaml_dump = (\<lambda>d. d),
                  logging_getattr = map_of logging_levels,
                  logging_basicConfig = (\<lambda>lv. None)\<rparr>"

text \<open>A file system with one file.\<close>

definition one_file :: "string \<Rightarrow> 'f \<Rightarrow> (string \<Rightarrow> 'f option)" where
  "one_file path txt = (\<lambda>p. if p = path then Some txt else None)"

text \<open>Documents and environments used as concrete inputs below.\<close>

definition config_empty_sections :: yaml where
  "config_empty_sections = YMap (fmap_of_list [
     (''database'', YNull), (''data_sources'', YNull),
     (''data_quality'', YNull), (''pipeline'', YNull)])"

definition config_without_schemas :: yaml where
  "config_without_schemas = YMap (fmap_of_list [
     (''database'', YMap (fmap_of_list [(''name'', YStr ''TASTY_BYTES'')])),
     (''data_sources'', YMap fmempty),
     (''data_quality'', YMap fmempty),
     (''pipeline'', YMap fmempty)])"

definition full_env :: "string \<Rightarrow> string option" where
  "full_env = map_of [
     (''SNOWFLAKE_ACCOUNT'', ''acme''), (''SNOWFLAKE_USER'', ''etl''),
     (''SNOWFLAKE_PASSWORD'', ''secret''), (''SNOWFLAKE_WAREHOUSE'', ''wh''),
     (''SNOWFLAKE_ROLE'', ''loader'')]"

definition default_store :: ConfigManager where
  "default_store = \<lparr>config_path = ''config.yaml'', config = default_config\<rparr>"

definition no_env :: "string \<Rightarrow> string option" where
  "no_env = (\<lambda>p. None)"

text \<open>A document whose logging level is no attribute of the logging module.\<close>

definition verbose_logging :: "(string, yaml) fmap" where
  "verbose_logging = fmap_of_list [(''level'', YStr ''VERBOSE'')]"

definition verbose_pipeline :: "(string, yaml) fmap" where
  "verbose_pipeline = fmap_of_list [(''logging'', YMap verbose_logging)]"

definition verbose_sections :: "(string, yaml) fmap" where
  "verbose_sections = fmap_of_list [
     (''database'', YMap default_database),
     (''data_sources'', YMap default_data_sources),
     (''data_quality'', YMap default_data_quality),
     (''pipeline'', YMap verbose_pipeline)]"

text \<open>Documents with an empty section, and a stage with a field the dataclass does not have.\<close>

definition null_sources_sections :: "(string, yaml) fmap" where
  "null_sources_sections = fmap_of_list [
     (''database'', YMap default_database),
     (''data_sources'', YNull),
     (''data_quality'', YMap default_data_quality),
     (''pipeline'', YMap default_pipeline)]"

definition null_stages_sections :: "(string, yaml) fmap" where
  "null_stages_sections = fmap_of_list [
     (''database'', YMap default_database),
     (''data_sources'', YMap default_data_sources),
     (''data_quality'', YMap default_data_quality),
     (''pipeline'', YMap (fmap_of_list [(''stages'', YNull)]))]"

definition extra_field_stage :: "(string, yaml) fmap" where
  "extra_field_stage = fmap_of_list [(''batch_size'', YInt 500), (''retries'', YInt 3)]"

definition extra_field_stages :: "(string, yaml) fmap" where
  "extra_field_stages = fmap_of_list [(''ingestion'', YMap extra_field_stage)]"

definition extra_field_pipeline :: "(string, yaml) fmap" where
  "extra_field_pipeline = fmap_of_list [(''stages'', YMap extra_field_stages)]"

definition extra_field_sections :: "(string, yaml) fmap" where
  "extra_field_sections = fmap_of_list [
     (''database'', YMap default_database),
     (''data_sources'', YMap default_data_sources),
     (''data_quality'', YMap default_data_quality),
     (''pipeline'', YMap extra_field_pipeline)]"





definition store_of :: "(string, yaml) fmap \<Rightarrow> ConfigManager" where
  "store_of sections = \<lparr>config_path = ''config.yaml'', config = YMap sections\<rparr>"

text \<open>Inputs for \<^verbatim>\<open>update_config\<close>: a logging section with a level the logging
  module does not have, and the default document with an empty \<open>streamlit\<close> section.\<close>

definition trace_logging :: yaml where
  "trace_logging = YMap (fmap_of_list [(''level'', YStr ''TRACE'')])"

definition null_streamlit_sections :: "(string, yaml) fmap" where
  "null_streamlit_sections = fmupd ''streamlit'' YNull default_sections"

text \<open>The default document with a \<open>streamlit\<close> and a \<open>monitoring\<close> section that are one
  dictionary object (an anchor and its alias).\<close>

definition port_map :: "(string, yaml) fmap" where
  "port_map = fmap_of_list [(''port'', YInt 8501)]"

definition aliased_sections :: "(string, yaml) fmap" where
  "aliased_sections =
     fmupd ''monitoring'' (YMap port_map) (fmupd ''streamlit'' (YMap port_map) default_sections)"

section \<open>Construction: the mandatory sections\<close>

lemma check_sections_map:
  "check_sections ss (YMap m) =
     (case find (\<lambda>s. fmlookup m s = None) ss of
        Some s \<Rightarrow> Inl (ValueError (''Missing required configuration section: '' @ s))
      | None \<Rightarrow> Inr ())"
  by (induction ss) (auto simp: py_contains_def)

lemma default_config_loads:
  "ConfigManager_init plain_libs (one_file ''config.yaml'' default_config) ''config.yaml''
     = Inr \<lparr>config_path = ''config.yaml'', config = default_config\<rparr>"
  by (simp add: ConfigManager_init_def load_config_def validate_config_def
      required_sections_def setup_logging_def py_get_def py_contains_def plain_libs_def
      one_file_def default_config_def default_sections_def default_pipeline_def
      logging_levels_def)

text \<open>
  Claim C1, as the code has it. For a file that parses to a mapping: when one of
  \<open>database\<close>, \<open>data_sources\<close>, \<open>data_quality\<close>, \<open>pipeline\<close> is not a key of the document,
  construction raises the ValueError (the specification's SchemaError) whose message names
  the first missing section in that order. When all four are keys, the \<open>pipeline\<close> section
  is a mapping, its \<open>logging\<close> entry is absent or a mapping, and the level (\<open>INFO\<close> when
  there is none) is a string that names an attribute of the logging module which
  \<^verbatim>\<open>basicConfig\<close> accepts, construction returns the store holding the path and the
  document.
\<close>

theorem C1_construct:
  assumes "fs path = Some txt" and "yaml_safe_load L txt = Inr (YMap m)"
  shows "((\<exists>s\<in>set required_sections. fmlookup m s = None) \<longrightarrow>
           (\<exists>s. find (\<lambda>s. fmlookup m s = None) required_sections = Some s
              \<and> ConfigManager_init L fs path =
                  Inl (ValueError (''Missing required configuration section: '' @ s))))
       \<and> ((\<forall>s\<in>set required_sections. fmlookup m s \<noteq> None) \<longrightarrow>
           (\<forall>p lg nm lv.
              fmlookup m ''pipeline'' = Some (YMap p)
              \<longrightarrow> (fmlookup p ''logging'' = None \<and> lg = fmempty
                    \<or> fmlookup p ''logging'' = Some (YMap lg))
              \<longrightarrow> (fmlookup lg ''level'' = None \<and> nm = ''INFO''
                    \<or> fmlookup lg ''level'' = Some (YStr nm))
              \<longrightarrow> logging_getattr L nm = Some lv
              \<longrightarrow> logging_basicConfig L lv = None
              \<longrightarrow> ConfigManager_init L fs path = Inr \<lparr>config_path = path, config = YMap m\<rparr>))"
proof -
  have l: "load_config L fs path =
     (case find (\<lambda>s. fmlookup m s = None) required_sections of
        Some s \<Rightarrow> Inl (ValueError (''Missing required configuration section: '' @ s))
      | None \<Rightarrow> Inr (YMap m))"
    using assms
    by (simp add: load_config_def validate_config_def check_sections_map split: option.splits)
  have a: "\<exists>s. find (\<lambda>s. fmlookup m s = None) required_sections = Some s
              \<and> ConfigManager_init L fs path =
                  Inl (ValueError (''Missing required configuration section: '' @ s))"
    if "\<exists>s\<in>set required_sections. fmlookup m s = None"
  proof -
    from that obtain s where s: "find (\<lambda>s. fmlookup m s = None) required_sections = Some s"
      by (cases "find (\<lambda>s. fmlookup m s = None) required_sections")
         (auto simp: find_None_iff)
    with l show ?thesis
      by (simp add: ConfigManager_init_def)
  qed
  have b: "ConfigManager_init L fs path = Inr \<lparr>config_path = path, config = YMap m\<rparr>"
    if "\<forall>s\<in>set required_sections. fmlookup m s \<noteq> None"
      "fmlookup m ''pipeline'' = Some (YMap p)"
      "fmlookup p ''logging'' = None \<and> lg = fmempty \<or> fmlookup p ''logging'' = Some (YMap lg)"
      "fmlookup lg ''level'' = None \<and> nm = ''INFO'' \<or> fmlookup lg ''level'' = Some (YStr nm)"
      "logging_getattr L nm = Some lv" "logging_basicConfig L lv = None"
    for p lg nm lv
  proof -
    from that(1) have "find (\<lambda>s. fmlookup m s = None) required_sections = None"
      by (simp add: find_None_iff)
    with l have ld: "load_config L fs path = Inr (YMap m)" by simp
    have "setup_logging L (YMap m) = Inr ()"
      using that(2-6) by (auto simp: setup_logging_def py_get_def)
    with ld show ?thesis
      by (simp add: ConfigManager_init_def)
  qed
  from a b show ?thesis by blast
qed

theorem C1_construct_witness:
  "one_file ''config.yaml'' (YMap (fmap_of_list [(''database'', YNull)])) ''config.yaml''
      = Some (YMap (fmap_of_list [(''database'', YNull)]))
   \<and> ConfigManager_init plain_libs
        (one_file ''config.yaml'' (YMap (fmap_of_list [(''database'', YNull)]))) ''config.yaml''
      = Inl (ValueError ''Missing required configuration section: data_sources'')
   \<and> one_file ''config.yaml'' (YMap default_sections) ''config.yaml''
      = Some (YMap default_sections)
   \<and> fmlookup default_sections ''pipeline'' = Some (YMap default_pipeline)
   \<and> logging_getattr plain_libs ''INFO'' = Some 20
   \<and> logging_basicConfig plain_libs 20 = None
   \<and> ConfigManager_init plain_libs (one_file ''config.yaml'' (YMap default_sections))
        ''config.yaml'' = Inr \<lparr>config_path = ''config.yaml'', config = YMap default_sections\<rparr>"
proof -
  let ?d = "fmap_of_list [(''database'', YNull)]"
  have f1: "one_file ''config.yaml'' (YMap ?d) ''config.yaml'' = Some (YMap ?d)"
    by (simp add: one_file_def)
  have f2: "one_file ''config.yaml'' (YMap default_sections) ''config.yaml''
      = Some (YMap default_sections)"
    by (simp add: one_file_def)
  have y: "yaml_safe_load plain_libs (YMap d) = Inr (YMap d)" for d
    by (simp add: plain_libs_def)
  have miss: "\<exists>s\<in>set required_sections. fmlookup ?d s = None"
    by (simp add: required_sections_def)
  have fd: "find (\<lambda>s. fmlookup ?d s = None) required_sections = Some ''data_sources''"
    by (simp add: required_sections_def)
  note t1 = C1_construct [of "one_file ''config.yaml'' (YMap ?d)" "''config.yaml''" "YMap ?d"
      plain_libs ?d, OF f1 y]
  note t2 = C1_construct [of "one_file ''config.yaml'' (YMap default_sections)" "''config.yaml''"
      "YMap default_sections" plain_libs default_sections, OF f2 y]
  from t1 [THEN conjunct1, THEN mp, OF miss]
  obtain s where s: "find (\<lambda>s. fmlookup ?d s = None) required_sections = Some s"
    and i: "ConfigManager_init plain_libs (one_file ''config.yaml'' (YMap ?d)) ''config.yaml'' =
                  Inl (ValueError (''Missing required configuration section: '' @ s))"
    by (elim exE conjE) (rule that; assumption)
  from s fd have "s = ''data_sources''" by (simp only: option.inject)
  with i have e: "ConfigManager_init plain_libs (one_file ''config.yaml'' (YMap ?d)) ''config.yaml''
      = Inl (ValueError ''Missing required configuration section: data_sources'')"
    by simp
  have all: "\<forall>s\<in>set required_sections. fmlookup default_sections s \<noteq> None"
    by (simp add: required_sections_def default_sections_def)
  have p: "fmlookup default_sections ''pipeline'' = Some (YMap default_pipeline)"
    by (simp add: default_sections_def)
  have lg: "fmlookup default_pipeline ''logging'' = None \<and> fmap_of_list [(''level'', YStr ''INFO'')] = fmempty
         \<or> fmlookup default_pipeline ''logging'' = Some (YMap (fmap_of_list [(''level'', YStr ''INFO'')]))"
    by (simp add: default_pipeline_def)
  have lv: "fmlookup (fmap_of_list [(''level'', YStr ''INFO'')]) ''level'' = None \<and> ''INFO'' = ''INFO''
         \<or> fmlookup (fmap_of_list [(''level'', YStr ''INFO'')]) ''level'' = Some (YStr ''INFO'')"
    by simp
  have g: "logging_getattr plain_libs ''INFO'' = Some 20"
    by (simp add: plain_libs_def logging_levels_def)
  have bc: "logging_basicConfig plain_libs 20 = None"
    by (simp add: plain_libs_def)
  have ok: "ConfigManager_init plain_libs (one_file ''config.yaml'' (YMap default_sections))
        ''config.yaml'' = Inr \<lparr>config_path = ''config.yaml'', config = YMap default_sections\<rparr>"
    using t2 [THEN conjunct2, THEN mp, OF all, THEN spec, THEN spec,
        THEN spec, THEN spec, THEN mp, OF p, THEN mp, OF lg, THEN mp, OF lv, THEN mp, OF g,
        THEN mp, OF bc] .
  show ?thesis
    by (intro conjI f1 e f2 p g bc ok)
qed

text \<open>
  Claim C1 as stated fails: a document in which all four sections are present but empty
  (\<^verbatim>\<open>pipeline:\<close> with nothing under it is \<^verbatim>\<open>None\<close>) passes the validation of the
  sections, and construction then raises AttributeError at
  \<^verbatim>\<open>.get('logging', {})\<close> on \<^verbatim>\<open>None\<close>.
\<close>

theorem C1_counterexample:
  "list_all (\<lambda>s. py_contains s config_empty_sections = Inr True) required_sections
   \<and> ConfigManager_init plain_libs (one_file ''config.yaml'' config_empty_sections)
        ''config.yaml'' = Inl AttributeError"
  by (simp add: ConfigManager_init_def load_config_def validate_config_def
      required_sections_def setup_logging_def py_get_def py_contains_def plain_libs_def
      one_file_def config_empty_sections_def)

section \<open>Connection parameters\<close>

lemma collect_params_missing:
  "snd (collect_params env ps (cp, mp)) = mp @ filter (\<lambda>p. env p = None \<or> env p = Some []) ps"
  by (induction ps arbitrary: cp mp) (auto split: option.splits)

lemma collect_params_keys:
  "fst ` set (fst (collect_params env ps (cp, mp)))
     = fst ` set cp \<union> param_key ` {p \<in> set ps. \<not> (env p = None \<or> env p = Some [])}"
  by (induction ps arbitrary: cp mp) (auto split: option.splits simp: dom_update image_iff)

lemma collect_params_cong:
  "(\<And>p. p \<in> set ps \<Longrightarrow> env p = env' p \<or> (env p = Some [] \<and> env' p = None)) \<Longrightarrow>
     collect_params env ps acc = collect_params env' ps acc"
proof (induction ps arbitrary: acc)
  case Nil
  then show ?case by simp
next
  case (Cons p ps)
  obtain cp mp where acc: "acc = (cp, mp)" by (cases acc)
  have tl: "\<And>a. collect_params env ps a = collect_params env' ps a"
    using Cons by simp
  have "env p = env' p \<or> (env p = Some [] \<and> env' p = None)"
    using Cons.prems by simp
  then show ?case
    by (auto simp: acc tl split: option.splits)
qed

lemma param_keys:
  "map param_key required_params = [''account'', ''user'', ''password'', ''warehouse'', ''role'']"
  by code_simp

lemma param_key_simps:
  "param_key ''SNOWFLAKE_ACCOUNT'' = ''account''"
  "param_key ''SNOWFLAKE_USER'' = ''user''"
  "param_key ''SNOWFLAKE_PASSWORD'' = ''password''"
  "param_key ''SNOWFLAKE_WAREHOUSE'' = ''warehouse''"
  "param_key ''SNOWFLAKE_ROLE'' = ''role''"
  using param_keys by (simp_all add: required_params_def)

lemma param_key_inj: "inj_on param_key (set required_params)"
proof -
  have "distinct (map param_key required_params)" by (simp add: param_keys)
  then show ?thesis by (simp add: distinct_map)
qed

text \<open>The rendered message contains every listed name in its quotes, and with all five
  names it is the following text.\<close>

lemma sublist_py_join: "x \<in> set xs \<Longrightarrow> sublist x (py_join sep xs)"
proof (induction sep xs rule: py_join.induct)
  case (1 sep)
  then show ?case by simp
next
  case (2 sep y)
  then show ?case by simp
next
  case (3 sep y z zs)
  show ?case
  proof (cases "x = y")
    case True
    then show ?thesis by simp
  next
    case False
    with 3 have "sublist x (py_join sep (z # zs))" by simp
    then have "sublist x ((y @ sep) @ py_join sep (z # zs))"
      by (rule sublist_order.order.trans) (rule sublist_append_leftI)
    then show ?thesis by simp
  qed
qed

lemma message_lists_name:
  assumes "p \<in> set missing"
  shows "sublist (CHR 0x27 # p @ [CHR 0x27]) (pre @ py_str_list missing)"
proof -
  from assms have "py_repr_str p \<in> set (map py_repr_str missing)" by simp
  then have "sublist (py_repr_str p) (py_join '', '' (map py_repr_str missing))"
    by (rule sublist_py_join)
  then have "sublist (py_repr_str p)
      ((pre @ ''['') @ py_join '', '' (map py_repr_str missing) @ '']'')"
    by (rule sublist_order.order.trans) (rule sublist_appendI)
  then show ?thesis
    by (simp add: py_str_list_def py_repr_str_def)
qed

lemma all_missing_message:
  "''Missing required environment variables: '' @ py_str_list required_params =
   ''Missing required environment variables: ['SNOWFLAKE_ACCOUNT', 'SNOWFLAKE_USER', 'SNOWFLAKE_PASSWORD', 'SNOWFLAKE_WAREHOUSE', 'SNOWFLAKE_ROLE']''"
  by (simp add: py_str_list_def py_repr_str_def required_params_def)

text \<open>
  Claim C3. In every environment that lacks one or more of the five variables, whatever the
  store holds, \<^verbatim>\<open>get_snowflake_connection_params\<close> raises the ValueError (the
  specification's MissingEnvironmentError) whose message is the fixed prefix followed by the
  printed list of all required names that are unset or empty, in the order of
  \<^verbatim>\<open>required_params\<close>. Every absent name is in that list, not only the first, and
  occurs in the message between single quotes. When all five are absent the list is the five
  required names and the message is the text given in the statement.
\<close>

theorem C3_all_missing_listed:
  assumes "\<exists>p\<in>set required_params. env p = None"
  shows "\<exists>missing msg.
           get_snowflake_connection_params env self = Inl (ValueError msg)
         \<and> msg = ''Missing required environment variables: '' @ py_str_list missing
         \<and> missing = filter (\<lambda>p. env p = None \<or> env p = Some []) required_params
         \<and> (\<forall>p\<in>set required_params. env p = None \<longrightarrow>
               p \<in> set missing \<and> sublist (CHR 0x27 # p @ [CHR 0x27]) msg)
         \<and> ((\<forall>p\<in>set required_params. env p = None) \<longrightarrow>
               missing = required_params \<and> length missing = 5
             \<and> msg = ''Missing required environment variables: ['SNOWFLAKE_ACCOUNT', 'SNOWFLAKE_USER', 'SNOWFLAKE_PASSWORD', 'SNOWFLAKE_WAREHOUSE', 'SNOWFLAKE_ROLE']'')"
proof -
  let ?missing = "filter (\<lambda>p. env p = None \<or> env p = Some []) required_params"
  let ?msg = "''Missing required environment variables: '' @ py_str_list ?missing"
  obtain cp mp where c: "collect_params env required_params ([], []) = (cp, mp)"
    by (cases "collect_params env required_params ([], [])")
  have mp: "mp = ?missing"
    using collect_params_missing [of env required_params "[]" "[]"] c by simp
  from assms have ne: "?missing \<noteq> []"
    by (auto simp: filter_empty_conv)
  have res: "get_snowflake_connection_params env self = Inl (ValueError ?msg)"
    using c mp ne by (simp add: get_snowflake_connection_params_def)
  have each: "\<forall>p\<in>set required_params. env p = None \<longrightarrow>
               p \<in> set ?missing \<and> sublist (CHR 0x27 # p @ [CHR 0x27]) ?msg"
  proof (intro ballI impI)
    fix p assume "p \<in> set required_params" "env p = None"
    then have "p \<in> set ?missing" by simp
    then show "p \<in> set ?missing \<and> sublist (CHR 0x27 # p @ [CHR 0x27]) ?msg"
      using message_lists_name by blast
  qed
  have all: "(\<forall>p\<in>set required_params. env p = None) \<longrightarrow>
      ?missing = required_params \<and> length ?missing = 5
      \<and> ?msg = ''Missing required environment variables: ['SNOWFLAKE_ACCOUNT', 'SNOWFLAKE_USER', 'SNOWFLAKE_PASSWORD', 'SNOWFLAKE_WAREHOUSE', 'SNOWFLAKE_ROLE']''"
  proof
    assume a: "\<forall>p\<in>set required_params. env p = None"
    then have f: "?missing = required_params" by simp
    have "length required_params = 5" by (simp add: required_params_def)
    with f show "?missing = required_params \<and> length ?missing = 5
      \<and> ?msg = ''Missing required environment variables: ['SNOWFLAKE_ACCOUNT', 'SNOWFLAKE_USER', 'SNOWFLAKE_PASSWORD', 'SNOWFLAKE_WAREHOUSE', 'SNOWFLAKE_ROLE']''"
      by (simp only: all_missing_message)
  qed
  show ?thesis
    apply (rule exI [of _ ?missing])
    apply (rule exI [of _ ?msg])
    apply (intro conjI res refl each all)
    done
qed

theorem C3_all_missing_listed_witness:
  "(\<exists>p\<in>set required_params. no_env p = None)
   \<and> get_snowflake_connection_params no_env default_store =
        Inl (ValueError ''Missing required environment variables: ['SNOWFLAKE_ACCOUNT', 'SNOWFLAKE_USER', 'SNOWFLAKE_PASSWORD', 'SNOWFLAKE_WAREHOUSE', 'SNOWFLAKE_ROLE']'')
   \<and> length required_params = 5"
proof -
  have h: "\<exists>p\<in>set required_params. no_env p = None"
    by (auto simp: no_env_def required_params_def)
  have a: "\<forall>p\<in>set required_params. no_env p = None"
    by (simp add: no_env_def)
  from C3_all_missing_listed [OF h, of default_store]
  obtain missing msg where m: "get_snowflake_connection_params no_env default_store =
             Inl (ValueError msg)"
    and i: "(\<forall>p\<in>set required_params. no_env p = None) \<longrightarrow>
               missing = required_params \<and> length missing = 5
             \<and> msg = ''Missing required environment variables: ['SNOWFLAKE_ACCOUNT', 'SNOWFLAKE_USER', 'SNOWFLAKE_PASSWORD', 'SNOWFLAKE_WAREHOUSE', 'SNOWFLAKE_ROLE']''"
    by (elim exE conjE) (rule that; assumption)
  from i a have j: "missing = required_params \<and> length missing = 5
             \<and> msg = ''Missing required environment variables: ['SNOWFLAKE_ACCOUNT', 'SNOWFLAKE_USER', 'SNOWFLAKE_PASSWORD', 'SNOWFLAKE_WAREHOUSE', 'SNOWFLAKE_ROLE']''"
    by (rule mp)
  note l = j [THEN conjunct1] j [THEN conjunct2, THEN conjunct1]
  note t = j [THEN conjunct2, THEN conjunct2]
  from l have n: "length required_params = 5" by (simp only:)
  from m t have r: "get_snowflake_connection_params no_env default_store =
        Inl (ValueError ''Missing required environment variables: ['SNOWFLAKE_ACCOUNT', 'SNOWFLAKE_USER', 'SNOWFLAKE_PASSWORD', 'SNOWFLAKE_WAREHOUSE', 'SNOWFLAKE_ROLE']'')"
    by (simp only:)
  show ?thesis
    by (intro conjI h r n)
qed

text \<open>
  Claim C10. A required variable that is set to the empty string is handled as an absent
  one: the call gives the same result as in the environment from which the variable has been
  removed; that result is the error whose message prints a list that contains the name of the
  variable, so that the name occurs in the message between single quotes; and the key of the
  variable is not among the entries that the loop has put into
  \<^verbatim>\<open>connection_params\<close>.
\<close>

theorem C10_empty_is_absent:
  assumes "p \<in> set required_params" and "env p = Some []"
  shows "get_snowflake_connection_params env self =
           get_snowflake_connection_params (env(p := None)) self
       \<and> (\<exists>missing msg. get_snowflake_connection_params env self = Inl (ValueError msg)
            \<and> msg = ''Missing required environment variables: '' @ py_str_list missing
            \<and> p \<in> set missing
            \<and> sublist (CHR 0x27 # p @ [CHR 0x27]) msg)
       \<and> param_key p \<notin> fst ` set (fst (collect_params env required_params ([], [])))"
proof -
  let ?missing = "filter (\<lambda>p. env p = None \<or> env p = Some []) required_params"
  let ?msg = "''Missing required environment variables: '' @ py_str_list ?missing"
  have same: "collect_params env required_params ([], []) =
      collect_params (env(p := None)) required_params ([], [])"
    by (rule collect_params_cong) (use assms in auto)
  obtain cp mp where c: "collect_params env required_params ([], []) = (cp, mp)"
    by (cases "collect_params env required_params ([], [])")
  have mp: "mp = ?missing"
    using collect_params_missing [of env required_params "[]" "[]"] c by simp
  have pin: "p \<in> set ?missing"
    using assms by simp
  then have ne: "?missing \<noteq> []"
    by (metis empty_iff list.set(1))
  have res: "get_snowflake_connection_params env self = Inl (ValueError ?msg)"
    using c mp ne by (simp add: get_snowflake_connection_params_def)
  have sub: "sublist (CHR 0x27 # p @ [CHR 0x27]) ?msg"
    using pin by (rule message_lists_name)
  have keys: "param_key p \<notin> fst ` set (fst (collect_params env required_params ([], [])))"
  proof
    assume "param_key p \<in> fst ` set (fst (collect_params env required_params ([], [])))"
    then obtain q where q: "q \<in> set required_params" "\<not> (env q = None \<or> env q = Some [])"
        "param_key p = param_key q"
      unfolding collect_params_keys by auto
    with assms(1) have "p = q"
      using param_key_inj by (auto dest: inj_onD)
    with q assms(2) show False by simp
  qed
  have eq: "get_snowflake_connection_params env self =
           get_snowflake_connection_params (env(p := None)) self"
    using same by (simp add: get_snowflake_connection_params_def)
  have ex: "\<exists>missing msg. get_snowflake_connection_params env self = Inl (ValueError msg)
            \<and> msg = ''Missing required environment variables: '' @ py_str_list missing
            \<and> p \<in> set missing
            \<and> sublist (CHR 0x27 # p @ [CHR 0x27]) msg"
    apply (rule exI [of _ ?missing])
    apply (rule exI [of _ ?msg])
    apply (intro conjI res refl pin sub)
    done
  show ?thesis
    by (intro conjI eq ex keys)
qed

theorem C10_empty_is_absent_witness:
  "''SNOWFLAKE_ROLE'' \<in> set required_params
   \<and> (full_env(''SNOWFLAKE_ROLE'' \<mapsto> [])) ''SNOWFLAKE_ROLE'' = Some []
   \<and> get_snowflake_connection_params (full_env(''SNOWFLAKE_ROLE'' \<mapsto> [])) default_store =
        Inl (ValueError ''Missing required environment variables: ['SNOWFLAKE_ROLE']'')
   \<and> get_snowflake_connection_params (full_env(''SNOWFLAKE_ROLE'' := None)) default_store =
        Inl (ValueError ''Missing required environment variables: ['SNOWFLAKE_ROLE']'')
   \<and> sublist (CHR 0x27 # ''SNOWFLAKE_ROLE'' @ [CHR 0x27])
        ''Missing required environment variables: ['SNOWFLAKE_ROLE']''"
proof -
  have r: "''SNOWFLAKE_ROLE'' \<in> set required_params"
    by (simp add: required_params_def)
  have e: "(full_env(''SNOWFLAKE_ROLE'' \<mapsto> [])) ''SNOWFLAKE_ROLE'' = Some []"
    by simp
  have c: "collect_params (full_env(''SNOWFLAKE_ROLE'' \<mapsto> [])) required_params ([], [])
    = ([(''account'', YStr ''acme''), (''user'', YStr ''etl''), (''password'', YStr ''secret''),
          (''warehouse'', YStr ''wh'')], [''SNOWFLAKE_ROLE''])"
    by (simp add: required_params_def full_env_def param_key_simps)
  have v: "get_snowflake_connection_params (full_env(''SNOWFLAKE_ROLE'' \<mapsto> [])) default_store =
        Inl (ValueError ''Missing required environment variables: ['SNOWFLAKE_ROLE']'')"
    by (simp only: get_snowflake_connection_params_def c split: prod.splits)
       (simp add: py_str_list_def py_repr_str_def)
  have u: "full_env(''SNOWFLAKE_ROLE'' := None)
             = (full_env(''SNOWFLAKE_ROLE'' \<mapsto> []))(''SNOWFLAKE_ROLE'' := None)"
    by simp
  note t = C10_empty_is_absent [of "''SNOWFLAKE_ROLE''" "full_env(''SNOWFLAKE_ROLE'' \<mapsto> [])"
      default_store, OF r e]
  have s: "get_snowflake_connection_params (full_env(''SNOWFLAKE_ROLE'' \<mapsto> [])) default_store =
       get_snowflake_connection_params
         ((full_env(''SNOWFLAKE_ROLE'' \<mapsto> []))(''SNOWFLAKE_ROLE'' := None)) default_store"
    by (rule t [THEN conjunct1])
  have "get_snowflake_connection_params (full_env(''SNOWFLAKE_ROLE'' := None)) default_store =
       get_snowflake_connection_params
         ((full_env(''SNOWFLAKE_ROLE'' \<mapsto> []))(''SNOWFLAKE_ROLE'' := None)) default_store"
    by (simp only: u [symmetric])
  also have "\<dots> = get_snowflake_connection_params (full_env(''SNOWFLAKE_ROLE'' \<mapsto> [])) default_store"
    by (rule s [symmetric])
  also note v
  finally have w: "get_snowflake_connection_params (full_env(''SNOWFLAKE_ROLE'' := None)) default_store =
        Inl (ValueError ''Missing required environment variables: ['SNOWFLAKE_ROLE']'')" .
  from t [THEN conjunct2, THEN conjunct1]
  obtain msg where m: "get_snowflake_connection_params
        (full_env(''SNOWFLAKE_ROLE'' \<mapsto> [])) default_store = Inl (ValueError msg)"
    and sb: "sublist (CHR 0x27 # ''SNOWFLAKE_ROLE'' @ [CHR 0x27]) msg"
    by (elim exE conjE) (rule that; assumption)
  from m v have "msg = ''Missing required environment variables: ['SNOWFLAKE_ROLE']''"
    by (simp only: sum.inject py_error.inject)
  with sb have x: "sublist (CHR 0x27 # ''SNOWFLAKE_ROLE'' @ [CHR 0x27])
        ''Missing required environment variables: ['SNOWFLAKE_ROLE']''"
    by (simp only:)
  show ?thesis
    by (intro conjI r e v w x)
qed

text \<open>
  Claim C4, as the code has it. When all five variables are set to strings that are not
  empty, and the \<open>database\<close> section of the store is a mapping that has both a \<open>name\<close> and a
  \<open>schemas\<close> entry, the call returns exactly six entries: \<open>account\<close>, \<open>user\<close>, \<open>password\<close>,
  \<open>warehouse\<close> and \<open>role\<close> bound to the values of the variables, and \<open>database\<close> bound to the
  stored name. (\<^verbatim>\<open>get_database_config\<close> reads \<open>schemas\<close> as well as \<open>name\<close>, so both
  must be there.)
\<close>

theorem C4_connection_params:
  assumes "env ''SNOWFLAKE_ACCOUNT'' = Some a" and "a \<noteq> []"
    and "env ''SNOWFLAKE_USER'' = Some u" and "u \<noteq> []"
    and "env ''SNOWFLAKE_PASSWORD'' = Some pw" and "pw \<noteq> []"
    and "env ''SNOWFLAKE_WAREHOUSE'' = Some w" and "w \<noteq> []"
    and "env ''SNOWFLAKE_ROLE'' = Some r" and "r \<noteq> []"
    and "config self = YMap m" and "fmlookup m ''database'' = Some (YMap db)"
    and "fmlookup db ''name'' = Some n" and "fmlookup db ''schemas'' = Some s"
  shows "get_snowflake_connection_params env self =
           Inr [(''account'', YStr a), (''user'', YStr u), (''password'', YStr pw),
                (''warehouse'', YStr w), (''role'', YStr r), (''database'', n)]"
proof -
  have c: "collect_params env required_params ([], []) =
      ([(''account'', YStr a), (''user'', YStr u), (''password'', YStr pw),
        (''warehouse'', YStr w), (''role'', YStr r)], [])"
    using assms(1-10) by (simp add: required_params_def param_key_simps)
  have d: "get_database_config self = Inr \<lparr>name = n, schemas = s\<rparr>"
    using assms(11-14) by (simp add: get_database_config_def py_getitem_def)
  show ?thesis
    by (simp add: get_snowflake_connection_params_def c d)
qed

theorem C4_connection_params_witness:
  "get_snowflake_connection_params full_env default_store =
     Inr [(''account'', YStr ''acme''), (''user'', YStr ''etl''), (''password'', YStr ''secret''),
          (''warehouse'', YStr ''wh''), (''role'', YStr ''loader''),
          (''database'', YStr ''TASTY_BYTES'')]"
proof -
  have env: "full_env ''SNOWFLAKE_ACCOUNT'' = Some ''acme''"
    "full_env ''SNOWFLAKE_USER'' = Some ''etl''"
    "full_env ''SNOWFLAKE_PASSWORD'' = Some ''secret''"
    "full_env ''SNOWFLAKE_WAREHOUSE'' = Some ''wh''"
    "full_env ''SNOWFLAKE_ROLE'' = Some ''loader''"
    by (simp_all add: full_env_def)
  have cfg: "config default_store = YMap default_sections"
    by (simp add: default_store_def default_config_def)
  have db: "fmlookup default_sections ''database'' = Some (YMap default_database)"
    by (simp add: default_sections_def)
  have nm: "fmlookup default_database ''name'' = Some (YStr ''TASTY_BYTES'')"
    by (simp add: default_database_def)
  have sc: "fmlookup default_database ''schemas'' = Some (YMap (fmap_of_list [
        (''raw'', YStr ''RAW_DATA''),
        (''harmonized'', YStr ''HARMONIZED''),
        (''analytics'', YStr ''ANALYTICS'')]))"
    by (simp add: default_database_def)
  show ?thesis
    by (rule C4_connection_params [OF env(1) _ env(2) _ env(3) _ env(4) _ env(5) _ cfg db nm sc])
       simp_all
qed

text \<open>
  Claim C4 as stated fails: the document below has all four sections and its \<open>database\<close>
  section has a \<open>name\<close>, so the store is constructed; with all five variables set, the call
  raises KeyError for \<open>schemas\<close> instead of returning the six entries.
\<close>

theorem C4_counterexample:
  "ConfigManager_init plain_libs (one_file ''config.yaml'' config_without_schemas) ''config.yaml''
     = Inr \<lparr>config_path = ''config.yaml'', config = config_without_schemas\<rparr>
   \<and> list_all (\<lambda>p. \<exists>v. full_env p = Some v \<and> v \<noteq> []) required_params
   \<and> get_snowflake_connection_params full_env
        \<lparr>config_path = ''config.yaml'', config = config_without_schemas\<rparr>
     = Inl (KeyError ''schemas'')"
  by (simp add: ConfigManager_init_def load_config_def validate_config_def
      required_sections_def setup_logging_def py_get_def py_contains_def plain_libs_def
      one_file_def config_without_schemas_def logging_levels_def
      get_snowflake_connection_params_def required_params_def full_env_def param_key_simps
      get_database_config_def py_getitem_def)

section \<open>Construction: the logging setup\<close>

lemmas init_defs = ConfigManager_init_def load_config_def validate_config_def
  required_sections_def setup_logging_def py_get_def py_contains_def plain_libs_def
  one_file_def logging_levels_def

lemma init_shape:
  assumes "ConfigManager_init L fs path = Inr self"
  shows "\<exists>m p. config self = YMap m \<and> fmlookup m ''pipeline'' = Some (YMap p)
           \<and> fmlookup m ''database'' \<noteq> None \<and> fmlookup m ''data_sources'' \<noteq> None
           \<and> fmlookup m ''data_quality'' \<noteq> None \<and> config_path self = path"
proof -
  from assms obtain cfg where l: "load_config L fs path = Inr cfg"
    and s: "setup_logging L cfg = Inr ()" and self: "self = \<lparr>config_path = path, config = cfg\<rparr>"
    by (auto simp: ConfigManager_init_def split: sum.splits)
  from s obtain m where m: "cfg = YMap m"
    by (cases cfg) (simp_all add: setup_logging_def py_get_def)
  from l have v: "check_sections required_sections (YMap m) = Inr ()"
    by (auto simp: load_config_def validate_config_def m split: option.splits sum.splits)
  then have k: "fmlookup m ''database'' \<noteq> None" "fmlookup m ''data_sources'' \<noteq> None"
      "fmlookup m ''data_quality'' \<noteq> None" "fmlookup m ''pipeline'' \<noteq> None"
    by (auto simp: required_sections_def py_contains_def split: if_splits)
  then obtain pv where pv: "fmlookup m ''pipeline'' = Some pv" by auto
  from s obtain p where "pv = YMap p"
    by (cases pv) (simp_all add: setup_logging_def py_get_def m pv)
  with k pv m self show ?thesis by simp
qed

text \<open>
  Claim C7, as the code has it. When the file loads, its four sections are present, and
  \<open>pipeline.logging.level\<close> is a string that names no attribute of the logging module,
  construction fails with AttributeError, raised by \<^verbatim>\<open>getattr(logging, log_level)\<close>.
  The source has no fallback to a default level.
\<close>

theorem C7_invalid_level_fails:
  assumes "load_config L fs path = Inr (YMap m)"
    and "fmlookup m ''pipeline'' = Some (YMap p)"
    and "fmlookup p ''logging'' = Some (YMap lg)"
    and "fmlookup lg ''level'' = Some (YStr nm)"
    and "logging_getattr L nm = None"
  shows "ConfigManager_init L fs path = Inl AttributeError"
  using assms by (simp add: ConfigManager_init_def setup_logging_def py_get_def)

theorem C7_invalid_level_fails_witness:
  "load_config plain_libs (one_file ''config.yaml'' (YMap verbose_sections)) ''config.yaml''
      = Inr (YMap verbose_sections)
   \<and> fmlookup verbose_logging ''level'' = Some (YStr ''VERBOSE'')
   \<and> logging_getattr plain_libs ''VERBOSE'' = None
   \<and> ConfigManager_init plain_libs (one_file ''config.yaml'' (YMap verbose_sections))
        ''config.yaml'' = Inl AttributeError"
proof -
  have l: "load_config plain_libs (one_file ''config.yaml'' (YMap verbose_sections)) ''config.yaml''
      = Inr (YMap verbose_sections)"
    by (simp add: init_defs verbose_sections_def)
  have p: "fmlookup verbose_sections ''pipeline'' = Some (YMap verbose_pipeline)"
    by (simp add: verbose_sections_def)
  have q: "fmlookup verbose_pipeline ''logging'' = Some (YMap verbose_logging)"
    by (simp add: verbose_pipeline_def)
  have v: "fmlookup verbose_logging ''level'' = Some (YStr ''VERBOSE'')"
    by (simp add: verbose_logging_def)
  have g: "logging_getattr plain_libs ''VERBOSE'' = None"
    by (simp add: plain_libs_def logging_levels_def)
  show ?thesis
    by (intro conjI l v g C7_invalid_level_fails [OF l p q v g])
qed

text \<open>
  Claim C7 as stated fails: the default document with its logging level replaced by
  \<open>TRACE\<close>, which Python's logging module does not define, cannot be constructed.
\<close>

theorem C7_counterexample:
  "ConfigManager_init plain_libs
      (one_file ''config.yaml'' (YMap (fmupd ''pipeline''
          (YMap (fmap_of_list [(''logging'', YMap (fmap_of_list [(''level'', YStr ''TRACE'')]))]))
          default_sections))) ''config.yaml''
     = Inl AttributeError"
  by (simp add: init_defs default_sections_def)

section \<open>Look-up of data sources and pipeline stages\<close>

text \<open>
  Claim C8, as the code has it. For a store whose \<open>data_sources\<close> section is a mapping,
  \<^verbatim>\<open>get_data_source_config\<close> raises the KeyError (the specification's NotFoundError)
  exactly when the name is not a key of the section, and otherwise returns the stored value
  as it is.
\<close>

theorem C8_data_source_lookup:
  assumes "config self = YMap m" and "fmlookup m ''data_sources'' = Some (YMap ds)"
  shows "(get_data_source_config self nm =
            Inl (KeyError (''Data source '' @ [CHR 0x27] @ nm @ [CHR 0x27]
                            @ '' not found in configuration'')))
          = (fmlookup ds nm = None)
       \<and> (\<forall>v. fmlookup ds nm = Some v \<longrightarrow> get_data_source_config self nm = Inr v)"
  using assms
  by (auto simp: get_data_source_config_def py_get_def py_contains_def py_getitem_def)

theorem C8_data_source_lookup_witness:
  "config default_store = YMap default_sections
   \<and> fmlookup default_sections ''data_sources'' = Some (YMap default_data_sources)
   \<and> get_data_source_config default_store ''missing'' =
        Inl (KeyError (''Data source '' @ [CHR 0x27] @ ''missing'' @ [CHR 0x27]
                            @ '' not found in configuration''))
   \<and> get_data_source_config default_store ''weather_data'' =
        Inr (YMap (fmap_of_list [
           (''table'', YStr ''weather_hamburg''),
           (''schema'', YStr ''harmonized''),
           (''refresh_frequency'', YStr ''daily''),
           (''retention_days'', YInt 365)]))"
proof -
  have c: "config default_store = YMap default_sections"
    by (simp add: default_store_def default_config_def)
  have d: "fmlookup default_sections ''data_sources'' = Some (YMap default_data_sources)"
    by (simp add: default_sections_def)
  have n: "fmlookup default_data_sources ''missing'' = None"
    by (simp add: default_data_sources_def)
  have w: "fmlookup default_data_sources ''weather_data'' = Some (YMap (fmap_of_list [
           (''table'', YStr ''weather_hamburg''),
           (''schema'', YStr ''harmonized''),
           (''refresh_frequency'', YStr ''daily''),
           (''retention_days'', YInt 365)]))"
    by (simp add: default_data_sources_def)
  note t = C8_data_source_lookup [OF c d]
  have a: "get_data_source_config default_store ''missing'' =
        Inl (KeyError (''Data source '' @ [CHR 0x27] @ ''missing'' @ [CHR 0x27]
                            @ '' not found in configuration''))"
    using t [of "''missing''", THEN conjunct1] n by (rule iffD2)
  have b: "get_data_source_config default_store ''weather_data'' =
        Inr (YMap (fmap_of_list [
           (''table'', YStr ''weather_hamburg''),
           (''schema'', YStr ''harmonized''),
           (''refresh_frequency'', YStr ''daily''),
           (''retention_days'', YInt 365)]))"
    using t [of "''weather_data''", THEN conjunct2] w by blast
  show ?thesis
    by (intro conjI c d a b)
qed

text \<open>
  Claim C8 as stated fails: a document whose \<open>data_sources\<close> section is present but empty
  (\<^verbatim>\<open>data_sources:\<close> with nothing under it is \<^verbatim>\<open>None\<close>) is loaded, and the
  look-up of any name then raises TypeError at \<^verbatim>\<open>source_name not in data_sources\<close>:
  neither the KeyError nor a stored mapping.
\<close>

theorem C8_counterexample:
  "ConfigManager_init plain_libs (one_file ''config.yaml'' (YMap null_sources_sections))
      ''config.yaml'' = Inr \<lparr>config_path = ''config.yaml'', config = YMap null_sources_sections\<rparr>
   \<and> get_data_source_config \<lparr>config_path = ''config.yaml'', config = YMap null_sources_sections\<rparr>
        ''weather_data'' = Inl TypeError"
  by (simp add: init_defs null_sources_sections_def default_pipeline_def
        get_data_source_config_def)

text \<open>
  Claim C6, as the code has it. For a store whose \<open>pipeline\<close> section is a mapping (as it
  is after construction): when \<open>pipeline.stages\<close> is a mapping that binds the stage name to a
  record with a key outside the eight fields of \<^verbatim>\<open>PipelineStage\<close>, the call raises
  TypeError (the specification's SchemaError); when \<open>pipeline.stages\<close> is missing, or is a
  mapping without the stage name, the call raises the KeyError (the specification's
  NotFoundError).
\<close>

theorem C6_stage_lookup:
  assumes "config self = YMap m" and "fmlookup m ''pipeline'' = Some (YMap p)"
  shows "(\<forall>stages st k. fmlookup p ''stages'' = Some (YMap stages)
            \<longrightarrow> fmlookup stages nm = Some (YMap st)
            \<longrightarrow> fmlookup st k \<noteq> None \<longrightarrow> k \<notin> set stage_fields
            \<longrightarrow> get_pipeline_stage_config self nm = Inl TypeError)
       \<and> (fmlookup p ''stages'' = None
            \<or> (\<exists>stages. fmlookup p ''stages'' = Some (YMap stages) \<and> fmlookup stages nm = None)
          \<longrightarrow> get_pipeline_stage_config self nm =
                Inl (KeyError (''Pipeline stage '' @ [CHR 0x27] @ nm @ [CHR 0x27]
                                @ '' not found in configuration'')))"
proof -
  have a: "get_pipeline_stage_config self nm = Inl TypeError"
    if "fmlookup p ''stages'' = Some (YMap stages)" "fmlookup stages nm = Some (YMap st)"
       "fmlookup st k \<noteq> None" "k \<notin> set stage_fields" for stages st k
  proof -
    from that(3) have "k |\<in>| fmdom st"
      by (simp add: fmlookup_dom_iff)
    with that(4) have "\<not> fmdom st |\<subseteq>| fset_of_list stage_fields"
      by (auto simp: fset_of_list.rep_eq)
    with that(1,2) assms show ?thesis
      by (simp add: get_pipeline_stage_config_def py_get_def py_contains_def py_getitem_def
          PipelineStage_init_def)
  qed
  have b: "get_pipeline_stage_config self nm =
                Inl (KeyError (''Pipeline stage '' @ [CHR 0x27] @ nm @ [CHR 0x27]
                                @ '' not found in configuration''))"
    if "fmlookup p ''stages'' = None
            \<or> (\<exists>stages. fmlookup p ''stages'' = Some (YMap stages) \<and> fmlookup stages nm = None)"
    using that assms
    by (auto simp: get_pipeline_stage_config_def py_get_def py_contains_def)
  from a b show ?thesis by blast
qed

theorem C6_stage_lookup_witness:
  "config \<lparr>config_path = ''config.yaml'', config = YMap extra_field_sections\<rparr>
      = YMap extra_field_sections
   \<and> fmlookup extra_field_stage ''retries'' \<noteq> None \<and> ''retries'' \<notin> set stage_fields
   \<and> get_pipeline_stage_config \<lparr>config_path = ''config.yaml'', config = YMap extra_field_sections\<rparr>
        ''ingestion'' = Inl TypeError
   \<and> fmlookup extra_field_stages ''export'' = None
   \<and> get_pipeline_stage_config \<lparr>config_path = ''config.yaml'', config = YMap extra_field_sections\<rparr>
        ''export'' = Inl (KeyError (''Pipeline stage '' @ [CHR 0x27] @ ''export'' @ [CHR 0x27]
                                @ '' not found in configuration''))"
proof -
  let ?self = "\<lparr>config_path = ''config.yaml'', config = YMap extra_field_sections\<rparr>"
  have c: "config ?self = YMap extra_field_sections"
    by simp
  have p: "fmlookup extra_field_sections ''pipeline'' = Some (YMap extra_field_pipeline)"
    by (simp add: extra_field_sections_def)
  have s: "fmlookup extra_field_pipeline ''stages'' = Some (YMap extra_field_stages)"
    by (simp add: extra_field_pipeline_def)
  have i: "fmlookup extra_field_stages ''ingestion'' = Some (YMap extra_field_stage)"
    by (simp add: extra_field_stages_def)
  have x: "fmlookup extra_field_stages ''export'' = None"
    by (simp add: extra_field_stages_def)
  have r: "fmlookup extra_field_stage ''retries'' \<noteq> None"
    by (simp add: extra_field_stage_def)
  have n: "''retries'' \<notin> set stage_fields"
    by (simp add: stage_fields_def)
  have a: "get_pipeline_stage_config ?self ''ingestion'' = Inl TypeError"
    using C6_stage_lookup [OF c p, of "''ingestion''", THEN conjunct1] s i r n by blast
  have b: "get_pipeline_stage_config ?self ''export'' =
      Inl (KeyError (''Pipeline stage '' @ [CHR 0x27] @ ''export'' @ [CHR 0x27]
                                @ '' not found in configuration''))"
    using C6_stage_lookup [OF c p, of "''export''", THEN conjunct2] s x by blast
  show ?thesis
    by (intro conjI c r n a x b)
qed

text \<open>
  Claim C6 as stated fails in its second half: a document whose \<open>pipeline.stages\<close> is present
  but empty (\<^verbatim>\<open>None\<close>) is loaded, no stage name is in it, and the look-up raises
  TypeError at \<^verbatim>\<open>stage_name not in stages_config\<close> instead of the KeyError.
\<close>

theorem C6_counterexample:
  "ConfigManager_init plain_libs (one_file ''config.yaml'' (YMap null_stages_sections))
      ''config.yaml'' = Inr \<lparr>config_path = ''config.yaml'', config = YMap null_stages_sections\<rparr>
   \<and> get_pipeline_stage_config \<lparr>config_path = ''config.yaml'', config = YMap null_stages_sections\<rparr>
        ''ingestion'' = Inl TypeError"
  by (simp add: init_defs null_stages_sections_def get_pipeline_stage_config_def)

section \<open>Validation of the thresholds\<close>





















section \<open>Update and reload\<close>

lemma check_sections_upd:
  "check_sections ss (YMap m) = Inr () \<Longrightarrow> check_sections ss (YMap (fmupd k v m)) = Inr ()"
  by (induction ss) (auto simp: py_contains_def split: if_splits)

lemma check_sections_keys:
  "(\<And>s. (fmlookup b s = None) = (fmlookup a s = None)) \<Longrightarrow>
     check_sections ss (YMap b) = check_sections ss (YMap a)"
  by (induction ss) (auto simp: py_contains_def)

lemma put_at_top:
  assumes "place = Key k # rest"
  shows "\<exists>d'. put_at place new (YMap d) = YMap d'
       \<and> (\<forall>s. s \<noteq> k \<longrightarrow> fmlookup d' s = fmlookup d s)
       \<and> (\<forall>s. (fmlookup d' s = None) = (fmlookup d s = None))"
  using assms by (cases "fmlookup d k") auto

lemma fold_put_at_top:
  assumes "\<forall>place\<in>set shared. \<exists>k rest. place = Key k # rest \<and> k \<noteq> section"
  shows "\<exists>d'. fold (\<lambda>place. put_at place new) shared (YMap d) = YMap d'
       \<and> fmlookup d' section = fmlookup d section
       \<and> (\<forall>s. (fmlookup d' s = None) = (fmlookup d s = None))"
  using assms
proof (induction shared arbitrary: d)
  case Nil
  then show ?case by simp
next
  case (Cons place shared)
  from Cons.prems obtain k rest where p: "place = Key k # rest" "k \<noteq> section"
    by auto
  from put_at_top [OF p(1), of new d]
  obtain d1 where d1: "put_at place new (YMap d) = YMap d1"
    "\<forall>s. s \<noteq> k \<longrightarrow> fmlookup d1 s = fmlookup d s"
    "\<forall>s. (fmlookup d1 s = None) = (fmlookup d s = None)"
    by (elim exE conjE) (rule that; assumption)
  from Cons.prems have "\<forall>place\<in>set shared. \<exists>k rest. place = Key k # rest \<and> k \<noteq> section"
    by simp
  from Cons.IH [OF this, of d1]
  obtain d' where d': "fold (\<lambda>place. put_at place new) shared (YMap d1) = YMap d'"
    "fmlookup d' section = fmlookup d1 section"
    "\<forall>s. (fmlookup d' s = None) = (fmlookup d1 s = None)"
    by (elim exE conjE) (rule that; assumption)
  from d1(2) p(2) have "fmlookup d1 section = fmlookup d section" by simp
  with d' d1 show ?case by simp
qed

lemma setup_logging_accepts:
  assumes "fmlookup m ''pipeline'' = Some (YMap p)"
    and "fmlookup p ''logging'' = None \<and> lg = fmempty \<or> fmlookup p ''logging'' = Some (YMap lg)"
    and "fmlookup lg ''level'' = None \<and> nm = ''INFO'' \<or> fmlookup lg ''level'' = Some (YStr nm)"
    and "logging_getattr L nm = Some lv" and "logging_basicConfig L lv = None"
  shows "setup_logging L (YMap m) = Inr ()"
  using assms by (auto simp: setup_logging_def py_get_def)

lemma plain_roundtrip: "\<forall>d. yaml_safe_load plain_libs (yaml_dump plain_libs d) = Inr d"
  by (simp add: plain_libs_def)

lemma default_sections_valid: "validate_config (YMap default_sections) = Inr ()"
  by (simp add: validate_config_def required_sections_def py_contains_def default_sections_def)

lemma aliased_sections_valid: "validate_config (YMap aliased_sections) = Inr ()"
  unfolding validate_config_def aliased_sections_def
  by (intro check_sections_upd default_sections_valid [unfolded validate_config_def])

text \<open>
  Claim C5, as the code has it. Take a store whose document is a mapping with the four
  mandatory sections (as after construction), a section that is absent from the document or
  is a mapping, and a YAML library that reads back every document it dumps; the other places
  at which the document holds the dictionary object of the section lie under other top-level
  keys. Then \<^verbatim>\<open>update_config\<close> returns; the section, created empty when it was
  absent, holds the value under the key, and so does every other place that holds the same
  dictionary object; the file at the path of the store is the dump of the whole updated
  document, and loading that path gives the updated document, in which
  \<open>document[section][key]\<close> is the value written. Constructing a fresh store from the path
  returns a store with that document when, in the updated document, the \<open>pipeline\<close> section
  is a mapping, its \<open>logging\<close> entry is absent or a mapping, and the level (\<open>INFO\<close> when there
  is none) is a string naming an attribute of the logging module that
  \<^verbatim>\<open>basicConfig\<close> accepts.
\<close>

theorem C5_update_roundtrip:
  assumes cfg: "config self = YMap m"
    and sections: "validate_config (YMap m) = Inr ()"
    and sec: "fmlookup m section = None \<or> (\<exists>old. fmlookup m section = Some (YMap old))"
    and places: "\<forall>place\<in>set shared. \<exists>k rest. place = Key k # rest \<and> k \<noteq> section"
    and rt: "\<forall>d. yaml_safe_load L (yaml_dump L d) = Inr d"
  shows "\<exists>m' sec' fs'.
           update_config L fs self shared section key v
             = Inr (self\<lparr>config := YMap m'\<rparr>, fs')
         \<and> (fmlookup m section = None \<longrightarrow>
               sec' = fmupd key v fmempty \<and> m' = fmupd section (YMap sec') m)
         \<and> (\<forall>old. fmlookup m section = Some (YMap old) \<longrightarrow>
               sec' = fmupd key v old
             \<and> YMap m' = fold (\<lambda>place. put_at place (YMap sec')) shared
                            (YMap (fmupd section (YMap sec') m)))
         \<and> fmlookup m' section = Some (YMap sec') \<and> fmlookup sec' key = Some v
         \<and> fs' = fs(config_path self \<mapsto> yaml_dump L (YMap m'))
         \<and> load_config L fs' (config_path self) = Inr (YMap m')
         \<and> (\<forall>p lg nm lv.
              fmlookup m' ''pipeline'' = Some (YMap p)
              \<longrightarrow> (fmlookup p ''logging'' = None \<and> lg = fmempty
                    \<or> fmlookup p ''logging'' = Some (YMap lg))
              \<longrightarrow> (fmlookup lg ''level'' = None \<and> nm = ''INFO''
                    \<or> fmlookup lg ''level'' = Some (YStr nm))
              \<longrightarrow> logging_getattr L nm = Some lv
              \<longrightarrow> logging_basicConfig L lv = None
              \<longrightarrow> ConfigManager_init L fs' (config_path self)
                    = Inr \<lparr>config_path = config_path self, config = YMap m'\<rparr>)"
proof -
  define old where "old = (case fmlookup m section of Some (YMap o') \<Rightarrow> o' | _ \<Rightarrow> fmempty)"
  define sec' where "sec' = fmupd key v old"
  define m2 where "m2 = fmupd section (YMap sec') m"
  from fold_put_at_top [OF places, of "YMap sec'" m2]
  obtain m3 where m3: "fold (\<lambda>place. put_at place (YMap sec')) shared (YMap m2) = YMap m3"
    "fmlookup m3 section = fmlookup m2 section"
    "\<forall>s. (fmlookup m3 s = None) = (fmlookup m2 s = None)"
    by (elim exE conjE) (rule that; assumption)
  define m' where "m' = (if fmlookup m section = None then m2 else m3)"
  define fs' where "fs' = fs(config_path self \<mapsto> yaml_dump L (YMap m'))"
  have u: "update_config L fs self shared section key v = Inr (self\<lparr>config := YMap m'\<rparr>, fs')"
    using sec cfg m3(1)
    by (auto simp: update_config_def py_contains_def py_setitem_def py_getitem_def
        save_config_def old_def sec'_def m2_def m'_def fs'_def Let_def)
  have o1: "fmlookup m section = None \<longrightarrow>
               sec' = fmupd key v fmempty \<and> m' = fmupd section (YMap sec') m"
    by (simp add: sec'_def old_def m'_def m2_def)
  have o2: "\<forall>o'. fmlookup m section = Some (YMap o') \<longrightarrow>
               sec' = fmupd key v o'
             \<and> YMap m' = fold (\<lambda>place. put_at place (YMap sec')) shared
                            (YMap (fmupd section (YMap sec') m))"
    using m3(1) by (auto simp: sec'_def old_def m'_def m2_def)
  have a: "fmlookup m' section = Some (YMap sec')"
    using m3(2) by (simp add: m'_def m2_def)
  have b: "fmlookup sec' key = Some v" by (simp add: sec'_def)
  have k: "(fmlookup m' s = None) = (fmlookup m2 s = None)" for s
    using m3(3) by (simp add: m'_def)
  have "check_sections required_sections (YMap m2) = Inr ()"
    using sections unfolding validate_config_def m2_def by (rule check_sections_upd)
  then have v: "validate_config (YMap m') = Inr ()"
    unfolding validate_config_def using check_sections_keys [of m' m2, OF k] by simp
  have l: "load_config L fs' (config_path self) = Inr (YMap m')"
    using rt v by (simp add: load_config_def fs'_def)
  have i: "\<forall>p lg nm lv.
              fmlookup m' ''pipeline'' = Some (YMap p)
              \<longrightarrow> (fmlookup p ''logging'' = None \<and> lg = fmempty
                    \<or> fmlookup p ''logging'' = Some (YMap lg))
              \<longrightarrow> (fmlookup lg ''level'' = None \<and> nm = ''INFO''
                    \<or> fmlookup lg ''level'' = Some (YStr nm))
              \<longrightarrow> logging_getattr L nm = Some lv
              \<longrightarrow> logging_basicConfig L lv = None
              \<longrightarrow> ConfigManager_init L fs' (config_path self)
                    = Inr \<lparr>config_path = config_path self, config = YMap m'\<rparr>"
  proof (intro allI impI)
    fix p lg nm lv
    assume "fmlookup m' ''pipeline'' = Some (YMap p)"
      "fmlookup p ''logging'' = None \<and> lg = fmempty \<or> fmlookup p ''logging'' = Some (YMap lg)"
      "fmlookup lg ''level'' = None \<and> nm = ''INFO'' \<or> fmlookup lg ''level'' = Some (YStr nm)"
      "logging_getattr L nm = Some lv" "logging_basicConfig L lv = None"
    then have "setup_logging L (YMap m') = Inr ()"
      by (rule setup_logging_accepts)
    then show "ConfigManager_init L fs' (config_path self)
                    = Inr \<lparr>config_path = config_path self, config = YMap m'\<rparr>"
      by (simp add: ConfigManager_init_def l)
  qed
  show ?thesis
    apply (rule exI [of _ m'])
    apply (rule exI [of _ sec'])
    apply (rule exI [of _ fs'])
    apply (intro conjI u o1 o2 a b l i fs'_def)
    done
qed

theorem C5_update_roundtrip_witness:
  "config (store_of aliased_sections) = YMap aliased_sections
   \<and> validate_config (YMap aliased_sections) = Inr ()
   \<and> fmlookup aliased_sections ''streamlit'' = Some (YMap port_map)
   \<and> fmlookup aliased_sections ''monitoring'' = Some (YMap port_map)
   \<and> (\<exists>m' fs'.
         update_config plain_libs (one_file ''config.yaml'' (YMap aliased_sections))
            (store_of aliased_sections) [[Key ''monitoring'']] ''streamlit'' ''theme''
            (YStr ''dark'')
           = Inr ((store_of aliased_sections)\<lparr>config := YMap m'\<rparr>, fs')
       \<and> ConfigManager_init plain_libs fs' ''config.yaml''
            = Inr \<lparr>config_path = ''config.yaml'', config = YMap m'\<rparr>
       \<and> fmlookup m' ''streamlit'' = Some (YMap (fmupd ''theme'' (YStr ''dark'') port_map))
       \<and> fmlookup m' ''monitoring'' = Some (YMap (fmupd ''theme'' (YStr ''dark'') port_map)))"
proof -
  let ?self = "store_of aliased_sections"
  let ?sec = "fmupd ''theme'' (YStr ''dark'') port_map"
  have c: "config ?self = YMap aliased_sections"
    by (simp add: store_of_def)
  have path: "config_path ?self = ''config.yaml''"
    by (simp add: store_of_def)
  have st: "fmlookup aliased_sections ''streamlit'' = Some (YMap port_map)"
    by (simp add: aliased_sections_def)
  have mo: "fmlookup aliased_sections ''monitoring'' = Some (YMap port_map)"
    by (simp add: aliased_sections_def)
  from st have st': "fmlookup aliased_sections ''streamlit'' = None
      \<or> (\<exists>old. fmlookup aliased_sections ''streamlit'' = Some (YMap old))"
    by simp
  have pl: "\<forall>place\<in>set [[Key ''monitoring'']].
      \<exists>k rest. place = Key k # rest \<and> k \<noteq> ''streamlit''"
    by simp
  from C5_update_roundtrip [OF c aliased_sections_valid st' pl plain_roundtrip,
      of "one_file ''config.yaml'' (YMap aliased_sections)" "''theme''" "YStr ''dark''"]
  obtain m' sec' fs' where u: "update_config plain_libs
        (one_file ''config.yaml'' (YMap aliased_sections)) ?self [[Key ''monitoring'']]
        ''streamlit'' ''theme'' (YStr ''dark'') = Inr (?self\<lparr>config := YMap m'\<rparr>, fs')"
    and o: "\<forall>old. fmlookup aliased_sections ''streamlit'' = Some (YMap old) \<longrightarrow>
               sec' = fmupd ''theme'' (YStr ''dark'') old
             \<and> YMap m' = fold (\<lambda>place. put_at place (YMap sec')) [[Key ''monitoring'']]
                            (YMap (fmupd ''streamlit'' (YMap sec') aliased_sections))"
    and i: "\<forall>p lg nm lv.
              fmlookup m' ''pipeline'' = Some (YMap p)
              \<longrightarrow> (fmlookup p ''logging'' = None \<and> lg = fmempty
                    \<or> fmlookup p ''logging'' = Some (YMap lg))
              \<longrightarrow> (fmlookup lg ''level'' = None \<and> nm = ''INFO''
                    \<or> fmlookup lg ''level'' = Some (YStr nm))
              \<longrightarrow> logging_getattr plain_libs nm = Some lv
              \<longrightarrow> logging_basicConfig plain_libs lv = None
              \<longrightarrow> ConfigManager_init plain_libs fs' (config_path ?self)
                    = Inr \<lparr>config_path = config_path ?self, config = YMap m'\<rparr>"
    by (elim exE conjE) (rule that; assumption)
  note j = o [THEN spec, THEN mp, OF st]
  note sec' = j [THEN conjunct1]
  note f = j [THEN conjunct2]
  from f mo have m': "m' = fmupd ''monitoring'' (YMap ?sec)
      (fmupd ''streamlit'' (YMap ?sec) aliased_sections)"
    by (simp add: sec')
  have a: "fmlookup m' ''streamlit'' = Some (YMap ?sec)"
    by (simp add: m')
  have b: "fmlookup m' ''monitoring'' = Some (YMap ?sec)"
    by (simp add: m')
  have pp: "fmlookup m' ''pipeline'' = Some (YMap default_pipeline)"
    by (simp add: m' aliased_sections_def default_sections_def)
  have lg: "fmlookup default_pipeline ''logging'' = None
        \<and> fmap_of_list [(''level'', YStr ''INFO'')] = fmempty
      \<or> fmlookup default_pipeline ''logging''
          = Some (YMap (fmap_of_list [(''level'', YStr ''INFO'')]))"
    by (simp add: default_pipeline_def)
  have lv: "fmlookup (fmap_of_list [(''level'', YStr ''INFO'')]) ''level'' = None
        \<and> ''INFO'' = ''INFO''
      \<or> fmlookup (fmap_of_list [(''level'', YStr ''INFO'')]) ''level'' = Some (YStr ''INFO'')"
    by simp
  have g: "logging_getattr plain_libs ''INFO'' = Some 20"
    by (simp add: plain_libs_def logging_levels_def)
  have bc: "logging_basicConfig plain_libs 20 = None"
    by (simp add: plain_libs_def)
  have "ConfigManager_init plain_libs fs' (config_path ?self)
                    = Inr \<lparr>config_path = config_path ?self, config = YMap m'\<rparr>"
    using i [THEN spec, THEN spec, THEN spec, THEN spec, THEN mp, OF pp, THEN mp, OF lg,
        THEN mp, OF lv, THEN mp, OF g, THEN mp, OF bc] .
  with path have n: "ConfigManager_init plain_libs fs' ''config.yaml''
            = Inr \<lparr>config_path = ''config.yaml'', config = YMap m'\<rparr>"
    by simp
  have "\<exists>m' fs'.
         update_config plain_libs (one_file ''config.yaml'' (YMap aliased_sections))
            ?self [[Key ''monitoring'']] ''streamlit'' ''theme'' (YStr ''dark'')
           = Inr (?self\<lparr>config := YMap m'\<rparr>, fs')
       \<and> ConfigManager_init plain_libs fs' ''config.yaml''
            = Inr \<lparr>config_path = ''config.yaml'', config = YMap m'\<rparr>
       \<and> fmlookup m' ''streamlit'' = Some (YMap ?sec)
       \<and> fmlookup m' ''monitoring'' = Some (YMap ?sec)"
    by (intro exI conjI) (rule u n a b)+
  then show ?thesis
    by (intro conjI c aliased_sections_valid st mo)
qed

text \<open>
  Claim C5 as stated fails, for a value and for a store. On the store of the default
  document, \<^verbatim>\<open>update_config('pipeline', 'logging', {'level': 'TRACE'})\<close> writes the
  file, and constructing a fresh store from it raises AttributeError in the logging setup.
  On a loaded store whose \<open>streamlit\<close> section is present but empty (\<^verbatim>\<open>None\<close>),
  \<^verbatim>\<open>update_config('streamlit', 'port', 8501)\<close> raises TypeError at the item
  assignment and writes nothing.
\<close>

theorem C5_counterexample:
  "ConfigManager_init plain_libs (one_file ''config.yaml'' default_config) ''config.yaml''
     = Inr default_store
   \<and> (\<exists>self' fs'.
         update_config plain_libs (one_file ''config.yaml'' default_config) default_store []
            ''pipeline'' ''logging'' trace_logging = Inr (self', fs')
       \<and> ConfigManager_init plain_libs fs' ''config.yaml'' = Inl AttributeError)
   \<and> ConfigManager_init plain_libs (one_file ''config.yaml'' (YMap null_streamlit_sections))
        ''config.yaml'' = Inr (store_of null_streamlit_sections)
   \<and> update_config plain_libs (one_file ''config.yaml'' (YMap null_streamlit_sections))
        (store_of null_streamlit_sections) [] ''streamlit'' ''port'' (YInt 8501) = Inl TypeError"
proof -
  have a: "ConfigManager_init plain_libs (one_file ''config.yaml'' default_config) ''config.yaml''
     = Inr default_store"
    by (simp add: default_config_loads default_store_def)
  let ?m = "fmupd ''pipeline'' (YMap (fmupd ''logging'' trace_logging default_pipeline))
              default_sections"
  let ?fs = "(one_file ''config.yaml'' default_config)(''config.yaml'' \<mapsto> YMap ?m)"
  have u: "update_config plain_libs (one_file ''config.yaml'' default_config) default_store []
            ''pipeline'' ''logging'' trace_logging
          = Inr (default_store\<lparr>config := YMap ?m\<rparr>, ?fs)"
    by (simp add: update_config_def py_contains_def py_setitem_def py_getitem_def Let_def
        save_config_def default_store_def default_config_def default_sections_def plain_libs_def)
  have i: "ConfigManager_init plain_libs ?fs ''config.yaml'' = Inl AttributeError"
    by (simp add: init_defs default_sections_def trace_logging_def)
  have n: "ConfigManager_init plain_libs (one_file ''config.yaml'' (YMap null_streamlit_sections))
        ''config.yaml'' = Inr (store_of null_streamlit_sections)"
    by (simp add: init_defs null_streamlit_sections_def default_sections_def
        default_pipeline_def store_of_def)
  have t: "update_config plain_libs (one_file ''config.yaml'' (YMap null_streamlit_sections))
        (store_of null_streamlit_sections) [] ''streamlit'' ''port'' (YInt 8501) = Inl TypeError"
    by (simp add: update_config_def py_contains_def py_setitem_def py_getitem_def Let_def
        store_of_def null_streamlit_sections_def)
  have "\<exists>self' fs'.
         update_config plain_libs (one_file ''config.yaml'' default_config) default_store []
            ''pipeline'' ''logging'' trace_logging = Inr (self', fs')
       \<and> ConfigManager_init plain_libs fs' ''config.yaml'' = Inl AttributeError"
    by (intro exI conjI) (rule u i)+
  then show ?thesis
    by (intro conjI a n t)
qed

end
